theory Spec2Isabelle
  imports Complex_Main "HOL-Library.Word"
begin

section \<open>Go values, panics and the reporting handle\<close>

text \<open>
  The package \<open>test\<close> (file \<open>assertions.go\<close>) is a set of generic assertion functions.
  Each takes a reporting handle \<open>t\<close> of the interface type \<open>T\<close> (methods \<open>Helper\<close>,
  \<open>Logf\<close>, \<open>Fail\<close>) and values to compare. The handle is supplied by the caller, so
  it is modelled by the sequence of method calls made on it: an assertion maps the calls
  made so far to the calls made when it returns.

  A value of the empty interface \<open>any\<close> is a \<open>gval\<close>. \<open>VNil\<close> is the nil interface
  value (no dynamic type), \<open>VTypedNil k\<close> a nil pointer, function, slice or map held in a
  non-nil interface. A non-nil pointer is its address and the value it points to, a
  non-nil function its code address. Slices, maps and structs are represented by their
  content (the identity of a slice's array or of a map object is not represented); a
  struct is the list of its fields, each with its name and whether it is exported.
\<close>

datatype float64 = Finite rat | PosInf | NegInf | NaN

datatype kind = KPtr | KFunc | KSlice | KMap

datatype gval =
    VNil
  | VTypedNil kind
  | VBool bool
  | VInt int
  | VFloat float64
  | VString string
  | VFunc nat
  | VPtr nat gval
  | VSlice "gval list"
  | VMap "(gval \<times> gval) list"
  | VStruct "(string \<times> bool \<times> gval) list"

text \<open>
  A run-time panic is a value: the functions that can panic return \<open>panic + 'a\<close>. A
  panic is taken to carry a non-nil value, as the panics of the runtime and of go-cmp do,
  so \<open>recover()\<close> returns non-nil exactly when the function panicked.
\<close>

datatype panic = NilDereference | IndexOutOfRange | LibraryPanic

text \<open>
  A non-nil \<open>error\<close> is its dynamic value and the string its \<open>Error()\<close> method returns;
  the nil \<open>error\<close> is \<open>None\<close>. Calling \<open>Error()\<close> on the nil interface panics.
\<close>

record err =
  dyn :: gval
  msg :: string

type_synonym error = "err option"

definition err_Error :: "error \<Rightarrow> panic + string" where
  "err_Error e = (case e of None \<Rightarrow> Inl NilDereference | Some x \<Rightarrow> Inr (msg x))"


datatype call = CHelper | CLogf string "gval list" | CFail

type_synonym T = "call list"

definition Helper :: "T \<Rightarrow> T" where
  "Helper t = t @ [CHelper]"

definition Logf :: "T \<Rightarrow> string \<Rightarrow> gval list \<Rightarrow> T" where
  "Logf t format args = t @ [CLogf format args]"

definition Fail :: "T \<Rightarrow> T" where
  "Fail t = t @ [CFail]"

text \<open>Characters that an Isabelle string literal cannot hold directly.\<close>

definition nl :: string where
  "nl = [CHR 0x0A]"


definition dq :: string where
  "dq = [CHR 0x22]"

section \<open>The imported packages\<close>

text \<open>
  The functions the file imports from \<open>fmt\<close>, \<open>strings\<close>, \<open>go-cmp\<close>, \<open>reflect\<close>,
  \<open>errors\<close> and \<open>encoding/json\<close> are not part of the repository. They are parameters of
  the model, collected in one record. \<open>cmp.Equal\<close> and \<open>cmp.Diff\<close> can panic;
  \<open>json.Marshal\<close>'s error is discarded by its only caller.
\<close>

record env =
  Sprintf :: "string \<Rightarrow> gval list \<Rightarrow> string"
  TrimSpace :: "string \<Rightarrow> string"
  cmp_Equal :: "gval \<Rightarrow> gval \<Rightarrow> panic + bool"
  cmp_Diff :: "gval \<Rightarrow> gval \<Rightarrow> panic + string"
  reflect_DeepEqual :: "gval \<Rightarrow> gval \<Rightarrow> bool"
  errors_Is :: "error \<Rightarrow> error \<Rightarrow> bool"
  json_Unmarshal :: "string \<Rightarrow> err + gval"
  json_Marshal :: "gval \<Rightarrow> string"

section \<open>Type constraints as dictionaries\<close>

text \<open>
  A type parameter constrained by \<open>any\<close> is instantiated with \<open>gval\<close>. For the other
  constraints a generic function receives the operations the constraint grants, and the
  conversion \<open>box\<close> of a value to \<open>any\<close> (used when a value is passed to \<open>Logf\<close>,
  \<open>Sprintf\<close> or the comparison packages).
\<close>

record 'a Any =
  box :: "'a \<Rightarrow> gval"

record 'a Comparable = "'a Any" +
  eq :: "'a \<Rightarrow> 'a \<Rightarrow> bool"

record 'a Ordered = "'a Comparable" +
  lt :: "'a \<Rightarrow> 'a \<Rightarrow> bool"
  le :: "'a \<Rightarrow> 'a \<Rightarrow> bool"
  gt :: "'a \<Rightarrow> 'a \<Rightarrow> bool"
  ge :: "'a \<Rightarrow> 'a \<Rightarrow> bool"

record 'a Number = "'a Ordered" +
  sub :: "'a \<Rightarrow> 'a \<Rightarrow> 'a"
  neg :: "'a \<Rightarrow> 'a"
  zero :: "'a"
  to_float64 :: "'a \<Rightarrow> float64"


record 'a LessFunc = "'a Any" +
  m_Less :: "'a \<Rightarrow> 'a \<Rightarrow> bool"


fun lookup :: "('k \<Rightarrow> 'k \<Rightarrow> bool) \<Rightarrow> ('k \<times> 'v) list \<Rightarrow> 'k \<Rightarrow> 'v option" where
  "lookup e [] key = None"
| "lookup e ((k, v) # m) key = (if e k key then Some v else lookup e m key)"



definition box_map :: "('k \<Rightarrow> gval) \<Rightarrow> ('v \<Rightarrow> gval) \<Rightarrow> ('k \<times> 'v) list \<Rightarrow> gval" where
  "box_map bk bv m = VMap (map (\<lambda>(k, v). (bk k, bv v)) m)"

section \<open>The reporting primitive and the structural comparator\<close>

definition fail :: "env \<Rightarrow> T \<Rightarrow> string \<Rightarrow> gval list \<Rightarrow> T" where
  "fail E t message args =
     (let s = Sprintf E message args;
          t1 = Logf t (TrimSpace E s @ nl) []
      in Fail t1)"

text \<open>
  \<open>diff\<close> and \<open>equal\<close> run the go-cmp function and recover from its panic in a deferred
  function, which then overwrites the named result.
\<close>

definition diff :: "env \<Rightarrow> gval \<Rightarrow> gval \<Rightarrow> string" where
  "diff E a b =
     (case cmp_Diff E a b of
        Inr d \<Rightarrow> ''difference!'' @ nl @ d
      | Inl r \<Rightarrow> Sprintf E (''difference!'' @ nl @ ''a: %#v'' @ nl @ ''b: %#v'' @ nl) [a, b])"

definition equal :: "env \<Rightarrow> gval \<Rightarrow> gval \<Rightarrow> bool" where
  "equal E a b =
     (case cmp_Equal E a b of
        Inr result \<Rightarrow> result
      | Inl r \<Rightarrow> reflect_DeepEqual E a b)"

section \<open>The assertions\<close>

definition Nil' :: "env \<Rightarrow> T \<Rightarrow> gval \<Rightarrow> T" where
  "Nil' E t0 a =
     (let t = Helper t0 in
      if a \<noteq> VNil then fail E t '';; expected to be nil; is not nil'' [] else t)"

definition NotNil :: "env \<Rightarrow> T \<Rightarrow> gval \<Rightarrow> T" where
  "NotNil E t0 a =
     (let t = Helper t0 in
      if a = VNil then fail E t '';; expected to not be nil; is nil'' [] else t)"




definition EqError :: "env \<Rightarrow> T \<Rightarrow> error \<Rightarrow> string \<Rightarrow> panic + T" where
  "EqError E t0 e m =
     (let t = Helper t0 in
      case err_Error e of
        Inl p \<Rightarrow> Inl p
      | Inr s \<Rightarrow>
          if s \<noteq> m then
            Inr (fail E (Logf (Logf t ''msg: %q'' [VString m]) ''err: %q'' [VString s])
                   '';; expected matching error strings'' [])
          else Inr t)"


































text \<open>
  \<open>math.IsNaN\<close> and \<open>math.IsInf\<close> on the classification of a \<open>float64\<close>; the sign
  argument of \<open>IsInf\<close> selects either infinity when it is 0.
\<close>

definition math_IsNaN :: "float64 \<Rightarrow> bool" where
  "math_IsNaN f = (f = NaN)"

definition math_IsInf :: "float64 \<Rightarrow> int \<Rightarrow> bool" where
  "math_IsInf f sign = (sign \<ge> 0 \<and> f = PosInf \<or> sign \<le> 0 \<and> f = NegInf)"

definition check :: "float64 \<Rightarrow> bool" where
  "check f = (if math_IsNaN f then False else if math_IsInf f 0 then False else True)"

definition Numeric :: "('n, 'm) Number_scheme \<Rightarrow> 'n \<Rightarrow> bool" where
  "Numeric N n = check (to_float64 N n)"

definition InDelta :: "env \<Rightarrow> ('n, 'm) Number_scheme \<Rightarrow> T \<Rightarrow> 'n \<Rightarrow> 'n \<Rightarrow> 'n \<Rightarrow> T" where
  "InDelta E N t0 a b delta =
     (let t = Helper t0 in
      if \<not> Numeric N delta then
        fail E t '';; delta must be numeric; got %v'' [box N delta]
      else if le N delta (zero N) then
        fail E t '';; delta must be positive; got %v'' [box N delta]
      else if \<not> Numeric N a then
        fail E t '';; first argument must be numeric; got %v'' [box N a]
      else if \<not> Numeric N b then
        fail E t '';; second argument must be numeric; got %v'' [box N b]
      else
        (let difference = sub N a b in
         if lt N difference (neg N delta) \<or> gt N difference delta then
           fail E t '';; %v and %v not within %v'' [box N a, box N b, box N delta]
         else t))"




text \<open>
  The \<open>range\<close> loops over a map recurse over the entries still to visit; \<open>a\<close> and \<open>b\<close>
  are the whole maps, for the lookup and the diagnostics.
\<close>

fun MapEq_range ::
  "env \<Rightarrow> ('k, 'm) Comparable_scheme \<Rightarrow> T \<Rightarrow> ('k \<times> gval) list \<Rightarrow> ('k \<times> gval) list \<Rightarrow>
   ('k \<times> gval) list \<Rightarrow> panic + T" where
  "MapEq_range E K t a b [] = Inr t"
| "MapEq_range E K t a b ((key, valueA) # rest) =
     (case lookup (eq K) b key of
        None \<Rightarrow>
          Inr (fail E (Logf t (diff E (box_map (box K) id a) (box_map (box K) id b)) [])
                 '';; expected maps of same keys'' [])
      | Some valueB \<Rightarrow>
          (case cmp_Equal E valueA valueB of
             Inl p \<Rightarrow> Inl p
           | Inr r \<Rightarrow>
               if \<not> r then
                 Inr (fail E (Logf t (diff E (box_map (box K) id a) (box_map (box K) id b)) [])
                        '';; expected maps of same values via cmp.Diff function'' [])
               else MapEq_range E K t a b rest))"

definition MapEq ::
  "env \<Rightarrow> ('k, 'm) Comparable_scheme \<Rightarrow> T \<Rightarrow> ('k \<times> gval) list \<Rightarrow> ('k \<times> gval) list \<Rightarrow> panic + T" where
  "MapEq E K t0 a b =
     (let t = Helper t0; lenA = length a; lenB = length b in
      if lenA \<noteq> lenB then
        Inr (fail E
               (Logf (Logf t (''len(map a): %d'' @ nl) [VInt (int lenA)])
                  (''len(map b): %d'' @ nl) [VInt (int lenB)])
               '';; expected maps of same length'' [])
      else MapEq_range E K t a b a)"







section \<open>Instances: numeric types\<close>

text \<open>
  The dictionaries of the unsigned and the signed integer types of a given width, whose
  arithmetic wraps around, and of \<open>float64\<close>. The conversion of an integer to \<open>float64\<close>
  is always finite. On \<open>float64\<close> the comparisons with a NaN are false and arithmetic on
  the infinities follows IEEE 754; the rounding of a finite difference is not represented.
\<close>

definition uints :: "'w::len word Number" where
  "uints =
     \<lparr>box = (\<lambda>w. VInt (uint w)), eq = (\<lambda>a b. a = b),
      lt = (\<lambda>a b. a < b), le = (\<lambda>a b. a \<le> b), gt = (\<lambda>a b. b < a), ge = (\<lambda>a b. b \<le> a),
      sub = (\<lambda>a b. a - b), neg = (\<lambda>a. - a), zero = 0,
      to_float64 = (\<lambda>w. Finite (of_int (uint w)))\<rparr>"

definition sints :: "'w::len word Number" where
  "sints =
     \<lparr>box = (\<lambda>w. VInt (sint w)), eq = (\<lambda>a b. a = b),
      lt = (\<lambda>a b. sint a < sint b), le = (\<lambda>a b. sint a \<le> sint b),
      gt = (\<lambda>a b. sint b < sint a), ge = (\<lambda>a b. sint b \<le> sint a),
      sub = (\<lambda>a b. a - b), neg = (\<lambda>a. - a), zero = 0,
      to_float64 = (\<lambda>w. Finite (of_int (sint w)))\<rparr>"

fun float_eq :: "float64 \<Rightarrow> float64 \<Rightarrow> bool" where
  "float_eq NaN y = False"
| "float_eq x NaN = False"
| "float_eq x y = (x = y)"






section \<open>Instances: the comparison packages as documented\<close>

text \<open>
  The documented behaviour of \<open>cmp.Equal\<close> (without options, on values of types without
  an \<open>Equal\<close> method) and of \<open>reflect.DeepEqual\<close>, on \<open>gval\<close>. Values of different
  dynamic types are unequal. Booleans, integers and strings are compared by value, floats
  by \<open>==\<close> (a NaN differs from itself). Non-nil functions are never equal. Pointers are
  compared through their targets (\<open>DeepEqual\<close> also accepts equal addresses), slices
  element by element, maps entry by entry with the keys matched by \<open>==\<close>, structs field
  by field. \<open>cmp.Equal\<close> panics when it reaches an unexported struct field, or a map key
  that is not equal to itself; it visits the entries of the first map (\<open>cmpEntries\<close>) and
  the keys of the second (\<open>cmpKeys\<close>). Two struct values have the same type when their field
  names and export marks agree.

  Two simplifications. For slices of different lengths \<open>cmp.Equal\<close> is taken to
  report the difference without visiting elements; \<open>equal\<close> returns the same either
  way. \<open>DeepEqual\<close> also accepts a slice or a map compared with itself without looking
  at its content; here the content is compared, which gives a different answer only for
  a slice or map that holds a NaN or a non-nil function.
\<close>

fun go_eq :: "gval \<Rightarrow> gval \<Rightarrow> bool"
  and go_eq_fields :: "(string \<times> bool \<times> gval) list \<Rightarrow> (string \<times> bool \<times> gval) list \<Rightarrow> bool" where
  "go_eq VNil b = (b = VNil)"
| "go_eq (VTypedNil j) b = (b = VTypedNil j)"
| "go_eq (VBool x) b = (b = VBool x)"
| "go_eq (VInt x) b = (b = VInt x)"
| "go_eq (VFloat x) b = (case b of VFloat y \<Rightarrow> float_eq x y | _ \<Rightarrow> False)"
| "go_eq (VString x) b = (b = VString x)"
| "go_eq (VFunc f) b = False"
| "go_eq (VPtr p x) b = (case b of VPtr q y \<Rightarrow> p = q | _ \<Rightarrow> False)"
| "go_eq (VSlice xs) b = False"
| "go_eq (VMap m) b = False"
| "go_eq (VStruct fs) b = (case b of VStruct gs \<Rightarrow> go_eq_fields fs gs | _ \<Rightarrow> False)"
| "go_eq_fields [] gs = (gs = [])"
| "go_eq_fields ((n, e, x) # fs) gs =
     (case gs of
        [] \<Rightarrow> False
      | (m, d, y) # gs' \<Rightarrow> n = m \<and> e = d \<and> go_eq x y \<and> go_eq_fields fs gs')"

definition both :: "panic + bool \<Rightarrow> panic + bool \<Rightarrow> panic + bool" where
  "both r s =
     (case r of
        Inl p \<Rightarrow> Inl p
      | Inr x \<Rightarrow> (case s of Inl p \<Rightarrow> Inl p | Inr y \<Rightarrow> Inr (x \<and> y)))"

definition same_struct_type ::
  "(string \<times> bool \<times> gval) list \<Rightarrow> (string \<times> bool \<times> gval) list \<Rightarrow> bool" where
  "same_struct_type fs gs = (map (\<lambda>(n, e, x). (n, e)) fs = map (\<lambda>(n, e, x). (n, e)) gs)"

primrec cmpKeys :: "(gval \<times> gval) list \<Rightarrow> (gval \<times> gval) list \<Rightarrow> panic + bool" where
  "cmpKeys m [] = Inr True"
| "cmpKeys m (e # n) =
     both (if \<not> go_eq (fst e) (fst e) then Inl LibraryPanic
           else Inr (lookup go_eq m (fst e) \<noteq> None))
       (cmpKeys m n)"

fun cmpEqual :: "gval \<Rightarrow> gval \<Rightarrow> panic + bool"
  and cmpElems :: "gval list \<Rightarrow> gval list \<Rightarrow> panic + bool"
  and cmpFields :: "(string \<times> bool \<times> gval) list \<Rightarrow> (string \<times> bool \<times> gval) list \<Rightarrow> panic + bool"
  and cmpEntries :: "(gval \<times> gval) list \<Rightarrow> (gval \<times> gval) list \<Rightarrow> panic + bool"
  and cmpEntry :: "gval \<Rightarrow> gval \<Rightarrow> (gval \<times> gval) list \<Rightarrow> panic + bool" where
  "cmpEqual VNil b = Inr (b = VNil)"
| "cmpEqual (VTypedNil j) b = Inr (b = VTypedNil j)"
| "cmpEqual (VBool x) b = Inr (b = VBool x)"
| "cmpEqual (VInt x) b = Inr (b = VInt x)"
| "cmpEqual (VFloat x) b = (case b of VFloat y \<Rightarrow> Inr (float_eq x y) | _ \<Rightarrow> Inr False)"
| "cmpEqual (VString x) b = Inr (b = VString x)"
| "cmpEqual (VFunc f) b = Inr False"
| "cmpEqual (VPtr p x) b = (case b of VPtr q y \<Rightarrow> cmpEqual x y | _ \<Rightarrow> Inr False)"
| "cmpEqual (VSlice xs) b =
     (case b of
        VSlice ys \<Rightarrow> if length xs = length ys then cmpElems xs ys else Inr False
      | _ \<Rightarrow> Inr False)"
| "cmpEqual (VMap m) b =
     (case b of
        VMap n \<Rightarrow>
          both (cmpEntries m n) (cmpKeys m n)
      | _ \<Rightarrow> Inr False)"
| "cmpEqual (VStruct fs) b =
     (case b of
        VStruct gs \<Rightarrow> if same_struct_type fs gs then cmpFields fs gs else Inr False
      | _ \<Rightarrow> Inr False)"
| "cmpElems [] ys = Inr (ys = [])"
| "cmpElems (x # xs) ys =
     (case ys of [] \<Rightarrow> Inr False | y # ys' \<Rightarrow> both (cmpEqual x y) (cmpElems xs ys'))"
| "cmpFields [] gs = Inr (gs = [])"
| "cmpFields ((n, e, x) # fs) gs =
     (case gs of
        [] \<Rightarrow> Inr False
      | (m, d, y) # gs' \<Rightarrow>
          if \<not> e then Inl LibraryPanic else both (cmpEqual x y) (cmpFields fs gs'))"
| "cmpEntries [] n = Inr True"
| "cmpEntries ((k, x) # m) n =
     both (if \<not> go_eq k k then Inl LibraryPanic else cmpEntry k x n) (cmpEntries m n)"
| "cmpEntry k x [] = Inr False"
| "cmpEntry k x ((j, y) # n) = (if go_eq j k then cmpEqual x y else cmpEntry k x n)"

fun deepEqual :: "gval \<Rightarrow> gval \<Rightarrow> bool"
  and deepElems :: "gval list \<Rightarrow> gval list \<Rightarrow> bool"
  and deepFields :: "(string \<times> bool \<times> gval) list \<Rightarrow> (string \<times> bool \<times> gval) list \<Rightarrow> bool"
  and deepEntries :: "(gval \<times> gval) list \<Rightarrow> (gval \<times> gval) list \<Rightarrow> bool"
  and deepEntry :: "gval \<Rightarrow> gval \<Rightarrow> (gval \<times> gval) list \<Rightarrow> bool" where
  "deepEqual VNil b = (b = VNil)"
| "deepEqual (VTypedNil j) b = (b = VTypedNil j)"
| "deepEqual (VBool x) b = (b = VBool x)"
| "deepEqual (VInt x) b = (b = VInt x)"
| "deepEqual (VFloat x) b = (case b of VFloat y \<Rightarrow> float_eq x y | _ \<Rightarrow> False)"
| "deepEqual (VString x) b = (b = VString x)"
| "deepEqual (VFunc f) b = False"
| "deepEqual (VPtr p x) b = (case b of VPtr q y \<Rightarrow> p = q \<or> deepEqual x y | _ \<Rightarrow> False)"
| "deepEqual (VSlice xs) b =
     (case b of VSlice ys \<Rightarrow> length xs = length ys \<and> deepElems xs ys | _ \<Rightarrow> False)"
| "deepEqual (VMap m) b =
     (case b of VMap n \<Rightarrow> length m = length n \<and> deepEntries m n | _ \<Rightarrow> False)"
| "deepEqual (VStruct fs) b =
     (case b of VStruct gs \<Rightarrow> same_struct_type fs gs \<and> deepFields fs gs | _ \<Rightarrow> False)"
| "deepElems [] ys = (ys = [])"
| "deepElems (x # xs) ys =
     (case ys of [] \<Rightarrow> False | y # ys' \<Rightarrow> deepEqual x y \<and> deepElems xs ys')"
| "deepFields [] gs = (gs = [])"
| "deepFields ((n, e, x) # fs) gs =
     (case gs of [] \<Rightarrow> False | (m, d, y) # gs' \<Rightarrow> deepEqual x y \<and> deepFields fs gs')"
| "deepEntries [] n = True"
| "deepEntries ((k, x) # m) n = (deepEntry k x n \<and> deepEntries m n)"
| "deepEntry k x [] = False"
| "deepEntry k x ((j, y) # n) = (if go_eq j k then deepEqual x y else deepEntry k x n)"

text \<open>
  \<open>cmp.Diff\<close> runs the same comparison as \<open>cmp.Equal\<close> and returns the empty string
  exactly when the values are equal. The report it prints for different values, like the
  text produced by \<open>fmt\<close>, \<open>strings\<close>, \<open>errors\<close> and \<open>encoding/json\<close>, is left
  unspecified in the instance \<open>go\<close>; of the JSON decoder it records the results on the
  four inputs of the specification's examples (a JSON number decodes to a \<open>float64\<close>).
\<close>

definition cmpDiff :: "gval \<Rightarrow> gval \<Rightarrow> panic + string" where
  "cmpDiff a b =
     (case cmpEqual a b of
        Inl p \<Rightarrow> Inl p
      | Inr r \<Rightarrow> if r then Inr [] else Inr (undefined a b))"

definition json_examples :: "string \<Rightarrow> err + gval" where
  "json_examples s =
     (if s = ''{'' @ dq @ ''a'' @ dq @ '':1}'' then Inr (VMap [(VString ''a'', VFloat (Finite 1))])
      else if s = ''{'' @ dq @ ''a'' @ dq @ '':1.0}'' then
        Inr (VMap [(VString ''a'', VFloat (Finite 1))])
      else if s = ''{}'' then Inr (VMap [])
      else if s = ''not json'' then Inl undefined
      else undefined s)"

definition go :: env where
  "go =
     \<lparr>Sprintf = undefined, TrimSpace = undefined,
      cmp_Equal = cmpEqual, cmp_Diff = cmpDiff, reflect_DeepEqual = deepEqual,
      errors_Is = undefined, json_Unmarshal = json_examples, json_Marshal = undefined\<rparr>"

section \<open>Observing a handle\<close>

text \<open>
  A test is marked failed when \<open>Fail\<close> was called on its handle, and a line was logged
  when \<open>Logf\<close> was. \<open>since t0 t\<close> are the calls an assertion added to the calls \<open>t0\<close>
  made before it.
\<close>

fun is_Logf :: "call \<Rightarrow> bool" where
  "is_Logf (CLogf format args) = True"
| "is_Logf c = False"

definition failed :: "T \<Rightarrow> bool" where
  "failed t = (CFail \<in> set t)"

definition logged :: "T \<Rightarrow> bool" where
  "logged t = (filter is_Logf t \<noteq> [])"

definition since :: "T \<Rightarrow> T \<Rightarrow> T" where
  "since t0 t = drop (length t0) t"

section \<open>Instances: keys\<close>

definition string_keys :: "string Comparable" where
  "string_keys = \<lparr>box = VString, eq = (\<lambda>a b. a = b)\<rparr>"


section \<open>The reporting contract\<close>

text \<open>
  \<open>log_before_fail\<close> holds of a sequence of calls when every \<open>Fail\<close> in it comes
  directly after a \<open>Logf\<close> (\<open>after_log l\<close> walks the sequence, \<open>l\<close> telling whether the
  call before was a \<open>Logf\<close>). \<open>reported t0 t\<close> says of an assertion that started with the
  calls \<open>t0\<close> and returned with \<open>t\<close>: it only added calls, each \<open>Fail\<close> it added follows
  a \<open>Logf\<close>, and it logged a line exactly when it marked the test failed.
  \<open>asserts t0 t P\<close> adds that it marked the test failed exactly when \<open>P\<close> is false.
\<close>

primrec after_log :: "bool \<Rightarrow> call list \<Rightarrow> bool" where
  "after_log l [] = True"
| "after_log l (c # cs) = ((if c = CFail then l else True) \<and> after_log (is_Logf c) cs)"

definition log_before_fail :: "call list \<Rightarrow> bool" where
  "log_before_fail cs = after_log False cs"

definition reported :: "T \<Rightarrow> T \<Rightarrow> bool" where
  "reported t0 t =
     (take (length t0) t = t0 \<and> log_before_fail (since t0 t) \<and>
      logged (since t0 t) = failed (since t0 t))"

definition asserts :: "T \<Rightarrow> T \<Rightarrow> bool \<Rightarrow> bool" where
  "asserts t0 t P = (reported t0 t \<and> failed (since t0 t) = (\<not> P))"



text \<open>The condition \<open>InDelta\<close> tests, and the condition the map assertions test of an entry of \<open>a\<close>.\<close>

definition in_delta :: "('n, 'm) Number_scheme \<Rightarrow> 'n \<Rightarrow> 'n \<Rightarrow> 'n \<Rightarrow> bool" where
  "in_delta N a b delta =
     (Numeric N delta \<and> \<not> le N delta (zero N) \<and> Numeric N a \<and> Numeric N b \<and>
      \<not> lt N (sub N a b) (neg N delta) \<and> \<not> gt N (sub N a b) delta)"


section \<open>Values that \<open>Eq\<close> finds equal to themselves\<close>







section \<open>The structural comparator\<close>

text \<open>
  Claim C5. \<open>equal\<close> first runs \<open>cmp.Equal\<close>. When that returns, its result is the
  result of \<open>equal\<close>; when it panics, \<open>equal\<close> recovers and returns the result of
  \<open>reflect.DeepEqual\<close>. \<open>equal\<close> itself returns a boolean in both cases: the panic does
  not reach its caller.
\<close>

theorem equal_recovers:
  "(cmp_Equal E a b = Inr r \<longrightarrow> equal E a b = r) \<and>
   (cmp_Equal E a b = Inl p \<longrightarrow> equal E a b = reflect_DeepEqual E a b)"
  by (simp add: equal_def)

theorem equal_recovers_witness:
  "cmp_Equal go (VInt 1) (VInt 1) = Inr True \<and> equal go (VInt 1) (VInt 1) = True \<and>
   cmp_Equal go (VStruct [(''mu'', False, VInt 0)]) (VStruct [(''mu'', False, VInt 0)])
     = Inl LibraryPanic \<and>
   equal go (VStruct [(''mu'', False, VInt 0)]) (VStruct [(''mu'', False, VInt 0)])
     = reflect_DeepEqual go (VStruct [(''mu'', False, VInt 0)]) (VStruct [(''mu'', False, VInt 0)]) \<and>
   reflect_DeepEqual go (VStruct [(''mu'', False, VInt 0)]) (VStruct [(''mu'', False, VInt 0)])"
  using equal_recovers [of go "VInt 1" "VInt 1" True LibraryPanic]
    equal_recovers [of go "VStruct [(''mu'', False, VInt 0)]" "VStruct [(''mu'', False, VInt 0)]"
      True LibraryPanic]
  by (simp add: go_def same_struct_type_def)

text \<open>
  Claim C4 says that \<open>diff\<close> returns an empty or neutral text whenever \<open>equal\<close> returns
  true. It does not: on the equal integers 1 and 1, \<open>cmp.Diff\<close> returns the empty text
  and \<open>diff\<close> returns the banner line alone.
\<close>

theorem diff_of_equal_is_banner:
  "equal go (VInt 1) (VInt 1) \<and> diff go (VInt 1) (VInt 1) \<noteq> [] \<and>
   diff go (VInt 1) (VInt 1) = ''difference!'' @ nl"
  by (simp add: equal_def diff_def go_def cmpDiff_def)

text \<open>
  Claim C4 as amended: \<open>diff\<close> puts the banner first in either case. When \<open>cmp.Diff\<close>
  returns the text \<open>d\<close>, \<open>diff\<close> returns the banner line followed by \<open>d\<close> (the banner
  line alone when \<open>d\<close> is empty, as it is for equal values); when \<open>cmp.Diff\<close> panics,
  \<open>diff\<close> returns both values formatted by a template that starts with the banner line.
\<close>

theorem diff_banner:
  "(cmp_Diff E a b = Inr d \<longrightarrow> diff E a b = ''difference!'' @ nl @ d) \<and>
   (cmp_Diff E a b = Inl p \<longrightarrow>
      diff E a b = Sprintf E (''difference!'' @ nl @ ''a: %#v'' @ nl @ ''b: %#v'' @ nl) [a, b])"
  by (simp add: diff_def)

theorem diff_banner_witness:
  "cmp_Diff go (VInt 1) (VInt 1) = Inr [] \<and>
   diff go (VInt 1) (VInt 1) = ''difference!'' @ nl @ [] \<and>
   cmp_Diff go (VStruct [(''mu'', False, VInt 0)]) (VStruct [(''mu'', False, VInt 0)])
     = Inl LibraryPanic \<and>
   diff go (VStruct [(''mu'', False, VInt 0)]) (VStruct [(''mu'', False, VInt 0)])
     = Sprintf go (''difference!'' @ nl @ ''a: %#v'' @ nl @ ''b: %#v'' @ nl)
         [VStruct [(''mu'', False, VInt 0)], VStruct [(''mu'', False, VInt 0)]]"
  using diff_banner [of go "VInt 1" "VInt 1" "[]" LibraryPanic]
    diff_banner [of go "VStruct [(''mu'', False, VInt 0)]" "VStruct [(''mu'', False, VInt 0)]"
      "[]" LibraryPanic]
  by (simp add: go_def cmpDiff_def same_struct_type_def)

section \<open>Panics\<close>

text \<open>
  Claim C1 says that no panic leaves an assertion. Two do. \<open>EqError\<close> calls
  \<open>err.Error()\<close> without testing \<open>err\<close>, so a nil error panics with a nil dereference
  (\<open>Error\<close> and \<open>NoError\<close> test it). \<open>MapEq\<close> calls \<open>cmp.Equal\<close> on the values
  directly, not through \<open>equal\<close>, so the panic \<open>cmp.Equal\<close> raises on a struct with an
  unexported field is not recovered (\<open>Eq\<close> and \<open>Contains\<close> go through \<open>equal\<close>).
\<close>

theorem EqError_MapEq_panic:
  "EqError go [] None ''boom'' = Inl NilDereference \<and>
   MapEq go string_keys [] [(''k'', VStruct [(''mu'', False, VInt 0)])]
     [(''k'', VStruct [(''mu'', False, VInt 0)])] = Inl LibraryPanic"
  by (simp add: EqError_def err_Error_def MapEq_def go_def string_keys_def
      same_struct_type_def Let_def)

section \<open>Nil\<close>

text \<open>
  Claim C10. \<open>Nil\<close> passes (logs nothing, does not fail the test) exactly when its
  argument is the nil interface value, and \<open>NotNil\<close> fails exactly then. A nil pointer
  held in an interface is not the nil interface value: \<open>Nil\<close> fails on it and
  \<open>NotNil\<close> passes, only calling \<open>Helper\<close>.
\<close>

theorem Nil_only_nil_interface:
  "(\<not> failed (since t (Nil' E t a)) \<and> \<not> logged (since t (Nil' E t a)) \<longleftrightarrow> a = VNil) \<and>
   (failed (since t (Nil' E t a)) \<longleftrightarrow> a \<noteq> VNil) \<and>
   (failed (since t (NotNil E t a)) \<longleftrightarrow> a = VNil) \<and>
   failed (since t (Nil' E t (VTypedNil KPtr))) \<and>
   NotNil E t (VTypedNil KPtr) = Helper t"
  by (auto simp add: Nil'_def NotNil_def fail_def Helper_def Logf_def Fail_def since_def
      failed_def logged_def Let_def)

theorem Nil_only_nil_interface_witness:
  "failed (since [] (Nil' go [] (VTypedNil KPtr))) \<and>
   \<not> failed (since [] (Nil' go [] VNil)) \<and>
   NotNil go [] (VTypedNil KPtr) = [CHelper] \<and>
   failed (since [] (NotNil go [] VNil))"
  using Nil_only_nil_interface [of "[]" go VNil] Nil_only_nil_interface [of "[]" go "VTypedNil KPtr"]
  by (simp add: Helper_def)

section \<open>Numeric tolerance\<close>

text \<open>
  Claim C2 says that \<open>InDelta\<close> passes exactly when \<open>-delta <= a-b <= delta\<close> in exact
  arithmetic, for unsigned integer types too. On \<open>uint8\<close> with \<open>a = 1\<close>, \<open>b = 2\<close>,
  \<open>delta = 1\<close> the exact difference \<open>-1\<close> is within the bounds, but \<open>a - b\<close> wraps to
  255 and is compared with \<open>delta\<close>, so \<open>InDelta\<close> fails the test.
\<close>

theorem InDelta_unsigned_wraps:
  "failed (since [] (InDelta go uints [] (1::8 word) 2 1)) \<and>
   - uint (1::8 word) \<le> uint (1::8 word) - uint (2::8 word) \<and>
   uint (1::8 word) - uint (2::8 word) \<le> uint (1::8 word)"
  by code_simp



section \<open>Collections\<close>



section \<open>JSON\<close>



section \<open>The reporting contract: properties\<close>






lemma asserts_Helper: "asserts t (Helper t) P = P"
  by (auto simp add: asserts_def reported_def log_before_fail_def since_def logged_def failed_def Helper_def)

lemma asserts_fail0: "asserts t (fail E (Helper t) m args) P = (\<not> P)"
  by (auto simp add: asserts_def reported_def log_before_fail_def since_def logged_def failed_def
      Helper_def fail_def Logf_def Fail_def)

lemma asserts_fail1: "asserts t (fail E (Logf (Helper t) f1 a1) m args) P = (\<not> P)"
  by (auto simp add: asserts_def reported_def log_before_fail_def since_def logged_def failed_def
      Helper_def fail_def Logf_def Fail_def)

lemma asserts_fail2: "asserts t (fail E (Logf (Logf (Helper t) f1 a1) f2 a2) m args) P = (\<not> P)"
  by (auto simp add: asserts_def reported_def log_before_fail_def since_def logged_def failed_def
      Helper_def fail_def Logf_def Fail_def)

lemma asserts_fail3:
  "asserts t (fail E (Logf (Logf (Logf (Helper t) f1 a1) f2 a2) f3 a3) m args) P = (\<not> P)"
  by (auto simp add: asserts_def reported_def log_before_fail_def since_def logged_def failed_def
      Helper_def fail_def Logf_def Fail_def)

lemmas asserts_calls = asserts_Helper asserts_fail0 asserts_fail1 asserts_fail2 asserts_fail3





lemma InDelta_asserts: "asserts t (InDelta E N t a b delta) (in_delta N a b delta)"
  by (auto simp add: InDelta_def Let_def in_delta_def asserts_calls)











































section \<open>Reflexivity of \<open>Eq\<close>\<close>



















section \<open>Numeric tolerance without wrap-around\<close>

text \<open>
  On a signed integer type \<open>InDelta\<close> is exact as long as \<open>a - b\<close> does not overflow:
  for a positive \<open>delta\<close> it fails exactly when the difference is outside
  \<open>[-delta, delta]\<close>.
\<close>

lemma sint_sub_exact:
  fixes a b :: "'w::len word"
  assumes "- (2 ^ (LENGTH('w) - 1)) \<le> sint a - sint b" and "sint a - sint b < 2 ^ (LENGTH('w) - 1)"
  shows "sint (a - b) = sint a - sint b"
  using assms by (simp add: sint_word_ariths signed_take_bit_int_eq_self)

lemma sint_neg_exact:
  fixes d :: "'w::len word"
  assumes "0 < sint d"
  shows "sint (- d) = - sint d"
proof -
  have "sint d < 2 ^ (LENGTH('w) - 1)" by (rule sint_lt)
  with assms show ?thesis
    by (simp add: sint_word_ariths signed_take_bit_int_eq_self)
qed

lemma InDelta_signed_exact:
  fixes a b delta :: "'w::len word"
  assumes "0 < sint delta"
    and "- (2 ^ (LENGTH('w) - 1)) \<le> sint a - sint b" and "sint a - sint b < 2 ^ (LENGTH('w) - 1)"
  shows "failed (since t (InDelta E sints t a b delta)) \<longleftrightarrow>
         \<not> (- sint delta \<le> sint a - sint b \<and> sint a - sint b \<le> sint delta)"
proof -
  have "failed (since t (InDelta E sints t a b delta)) = (\<not> in_delta sints a b delta)"
    using InDelta_asserts [of t E sints a b delta] by (simp add: asserts_def)
  moreover have "in_delta sints a b delta \<longleftrightarrow>
      (- sint delta \<le> sint a - sint b \<and> sint a - sint b \<le> sint delta)"
    using assms(1) sint_sub_exact [OF assms(2,3)] sint_neg_exact [OF assms(1)]
    by (auto simp add: in_delta_def sints_def Numeric_def check_def math_IsNaN_def math_IsInf_def)
  ultimately show ?thesis by simp
qed

end
